theory Spec2Isabelle
  imports Complex_Main
begin

section \<open>Derivation of the Filmic v6 gamut-mapping equation in Yrg\<close>

text \<open>
  The script \<^verbatim>\<open>tools/derive_filmic_v6_gamut_mapping.py\<close> builds, with a computer-algebra
  library, one expression in the symbols \<^verbatim>\<open>Y\<close>, \<^verbatim>\<open>c\<close>, \<^verbatim>\<open>ch\<close>, \<^verbatim>\<open>sh\<close>, \<^verbatim>\<open>a1\<close>, \<^verbatim>\<open>a2\<close>, \<^verbatim>\<open>a3\<close>
  and \<^verbatim>\<open>k\<close>, and asks the library for the real values of \<^verbatim>\<open>c\<close> at which it vanishes.
  Every name the script assigns is embedded as the function of the symbols that the
  assigned expression denotes. The symbols range over the reals, the decimal literals are
  the rational numbers they spell, and the arithmetic is that of the real field.
  \<^verbatim>\<open>ch\<close> and \<^verbatim>\<open>sh\<close> are two independent symbols of the script (its comment reads them as
  the cosine and the sine of the hue), so every statement below that holds for all
  \<^verbatim>\<open>ch\<close> and \<^verbatim>\<open>sh\<close> holds for every hue.
\<close>

subsection \<open>Values\<close>

text \<open>
  The script has no \<^verbatim>\<open>raise\<close> and no \<^verbatim>\<open>try\<close>. A division by zero of the algebra library
  is not an exception either: the quotient is one of the library's non-finite values
  (complex infinity, or not-a-number for zero over zero), and every sum and product with
  such a value is non-finite again. Both non-finite values are \<open>NonFinite\<close> here. The
  constructor \<open>Raised\<close> is the outcome of a signalled error; no expression of the script
  produces it.
\<close>

datatype error = DegenerateNormalization

datatype 'a outcome = Val 'a | NonFinite | Raised error

type_synonym vec3 = "real \<times> real \<times> real"

type_synonym mat3 = "vec3 \<times> vec3 \<times> vec3"

text \<open>Entries \<^verbatim>\<open>[0, 0]\<close>, \<^verbatim>\<open>[1, 0]\<close> and \<^verbatim>\<open>[2, 0]\<close> of a column of three.\<close>

fun at0 :: "vec3 \<Rightarrow> real" where
  "at0 (x, y, z) = x"

fun at1 :: "vec3 \<Rightarrow> real" where
  "at1 (x, y, z) = y"

fun at2 :: "vec3 \<Rightarrow> real" where
  "at2 (x, y, z) = z"

text \<open>The product of a 3x3 matrix (given by its rows) and a column.\<close>

fun dot :: "vec3 \<Rightarrow> vec3 \<Rightarrow> real" where
  "dot (x1, x2, x3) (y1, y2, y3) = x1 * y1 + x2 * y2 + x3 * y3"

fun mat_vec :: "mat3 \<Rightarrow> vec3 \<Rightarrow> vec3" where
  "mat_vec (row0, row1, row2) v = (dot row0 v, dot row1 v, dot row2 v)"

text \<open>The quotient \<^verbatim>\<open>x / y\<close> of the algebra library.\<close>

definition sdiv :: "real \<Rightarrow> real \<Rightarrow> real outcome" where
  "sdiv x y = (if y = 0 then NonFinite else Val (x / y))"

text \<open>The product of a scalar and a column, entry by entry.\<close>

fun scale :: "real outcome \<Rightarrow> vec3 \<Rightarrow> vec3 outcome" where
  "scale (Val s) (x, y, z) = Val (s * x, s * y, s * z)"
| "scale NonFinite v = NonFinite"
| "scale (Raised e) v = Raised e"

subsection \<open>The expressions of the script\<close>

text \<open>\<^verbatim>\<open>Yrg = Matrix([[Y, c * ch + 0.21902143, c * sh + 0.54371398]]).transpose()\<close>\<close>

definition Yrg :: "real \<Rightarrow> real \<Rightarrow> real \<Rightarrow> real \<Rightarrow> vec3" where
  "Yrg Y c ch sh = (Y, c * ch + 0.21902143, c * sh + 0.54371398)"

text \<open>\<^verbatim>\<open>r = Yrg[1, 0]\<close>, \<^verbatim>\<open>g = Yrg[2, 0]\<close>, \<^verbatim>\<open>rgb = Matrix([[r, g, 1 - r - g]]).transpose()\<close>\<close>

definition r :: "real \<Rightarrow> real \<Rightarrow> real \<Rightarrow> real \<Rightarrow> real" where
  "r Y c ch sh = at1 (Yrg Y c ch sh)"

definition g :: "real \<Rightarrow> real \<Rightarrow> real \<Rightarrow> real \<Rightarrow> real" where
  "g Y c ch sh = at2 (Yrg Y c ch sh)"

definition rgb :: "real \<Rightarrow> real \<Rightarrow> real \<Rightarrow> real \<Rightarrow> vec3" where
  "rgb Y c ch sh = (r Y c ch sh, g Y c ch sh, 1 - r Y c ch sh - g Y c ch sh)"

text \<open>The matrix \<^verbatim>\<open>rgb_to_lms\<close> and \<^verbatim>\<open>lms = rgb_to_lms * rgb\<close>.\<close>

definition rgb_to_lms :: mat3 where
  "rgb_to_lms = ((0.95, 0.38, 0.00),
                 (0.05, 0.62, 0.03),
                 (0.00, 0.00, 0.97))"

definition lms :: "real \<Rightarrow> real \<Rightarrow> real \<Rightarrow> real \<Rightarrow> vec3" where
  "lms Y c ch sh = mat_vec rgb_to_lms (rgb Y c ch sh)"

text \<open>
  \<^verbatim>\<open>coeff = Y / (0.68990272 * lms[0, 0] + 0.34832189 * lms[1, 0])\<close> and
  \<^verbatim>\<open>LMS = coeff * lms\<close>.
\<close>

definition coeff :: "real \<Rightarrow> real \<Rightarrow> real \<Rightarrow> real \<Rightarrow> real outcome" where
  "coeff Y c ch sh =
     sdiv Y (0.68990272 * at0 (lms Y c ch sh) + 0.34832189 * at1 (lms Y c ch sh))"

definition LMS :: "real \<Rightarrow> real \<Rightarrow> real \<Rightarrow> real \<Rightarrow> vec3 outcome" where
  "LMS Y c ch sh = scale (coeff Y c ch sh) (lms Y c ch sh)"

text \<open>\<^verbatim>\<open>A = Matrix([[a1, a2, a3]])\<close> and \<^verbatim>\<open>component = (A * LMS)[0, 0]\<close>.\<close>

definition A :: "real \<Rightarrow> real \<Rightarrow> real \<Rightarrow> vec3" where
  "A a1 a2 a3 = (a1, a2, a3)"

definition component ::
  "real \<Rightarrow> real \<Rightarrow> real \<Rightarrow> real \<Rightarrow> real \<Rightarrow> real \<Rightarrow> real \<Rightarrow> real outcome" where
  "component Y c ch sh a1 a2 a3 = map_outcome (dot (A a1 a2 a3)) (LMS Y c ch sh)"

text \<open>
  The denominator of \<^verbatim>\<open>coeff\<close>, the luminance of the cone response before it is
  rescaled; the script gives this subexpression no name.
\<close>

abbreviation denom :: "real \<Rightarrow> real \<Rightarrow> real \<Rightarrow> real \<Rightarrow> real" where
  "denom Y c ch sh \<equiv>
     0.68990272 * at0 (lms Y c ch sh) + 0.34832189 * at1 (lms Y c ch sh)"

subsection \<open>The solver\<close>

text \<open>
  Modelled from the spec: \<^verbatim>\<open>solveset_real\<close> is a function of the computer-algebra
  library that the script imports; its code is not among the sources. The spec says of
  the call that it "returns all real roots of this equation" and that roots with a
  non-zero imaginary part are discarded, which is the library's contract for a solve over
  the reals: the set of the real values of the unknown at which the expression is
  defined and zero.
\<close>

definition solveset_real :: "(real \<Rightarrow> real outcome) \<Rightarrow> real set" where
  "solveset_real f = {x. f x = Val 0}"

text \<open>
  The last line of the script, \<^verbatim>\<open>solveset_real(component - k, c)\<close>: the unknown is
  \<^verbatim>\<open>c\<close>, every other symbol is a parameter.
\<close>

definition solveForChroma ::
  "real \<Rightarrow> real \<Rightarrow> real \<Rightarrow> real \<Rightarrow> real \<Rightarrow> real \<Rightarrow> real \<Rightarrow> real set" where
  "solveForChroma Y ch sh a1 a2 a3 k =
     solveset_real (\<lambda>c. map_outcome (\<lambda>v. v - k) (component Y c ch sh a1 a2 a3))"

subsection \<open>The normalisation as an operation\<close>

text \<open>
  Lines 54 and 55 of the script, \<^verbatim>\<open>coeff = Y / (0.68990272 * lms[0, 0] + 0.34832189 *
  lms[1, 0])\<close> and \<^verbatim>\<open>LMS = coeff * lms\<close>, read as an operation on the value of \<^verbatim>\<open>lms\<close>:
  the same two expressions, with the column as an argument.
\<close>

definition normalizeByLuminance :: "real \<Rightarrow> vec3 \<Rightarrow> vec3 outcome" where
  "normalizeByLuminance Y l = scale (sdiv Y (0.68990272 * at0 l + 0.34832189 * at1 l)) l"

text \<open>
  The denominator of \<^verbatim>\<open>coeff\<close> with the two weights, the matrix and the two offsets as
  arguments in place of the literals of lines 38, 46 to 50 and 54.
\<close>

definition denom_of ::
  "real \<Rightarrow> real \<Rightarrow> mat3 \<Rightarrow> real \<Rightarrow> real \<Rightarrow> real \<Rightarrow> real \<Rightarrow> real \<Rightarrow> real" where
  "denom_of w1 w2 m r0 g0 c ch sh =
     w1 * at0 (mat_vec m (c * ch + r0, c * sh + g0, 1 - (c * ch + r0) - (c * sh + g0)))
   + w2 * at1 (mat_vec m (c * ch + r0, c * sh + g0, 1 - (c * ch + r0) - (c * sh + g0)))"

subsection \<open>The script as a sequence of assignments\<close>

text \<open>
  The namespace of the script: one field for each name that the script assigns, and
  \<open>printed\<close> for the set that its last line prints. A symbolic expression is held as
  the function of the unknown chroma that it denotes once the other symbols have their
  values, so the symbol \<^verbatim>\<open>c\<close> is the identity and every other symbol is a constant.
\<close>

record env =
  v_Y :: "real \<Rightarrow> real"
  v_c :: "real \<Rightarrow> real"
  v_ch :: "real \<Rightarrow> real"
  v_sh :: "real \<Rightarrow> real"
  v_Yrg :: "real \<Rightarrow> vec3"
  v_r :: "real \<Rightarrow> real"
  v_g :: "real \<Rightarrow> real"
  v_rgb :: "real \<Rightarrow> vec3"
  v_rgb_to_lms :: mat3
  v_lms :: "real \<Rightarrow> vec3"
  v_coeff :: "real \<Rightarrow> real outcome"
  v_LMS :: "real \<Rightarrow> vec3 outcome"
  v_a1 :: "real \<Rightarrow> real"
  v_a2 :: "real \<Rightarrow> real"
  v_a3 :: "real \<Rightarrow> real"
  v_A :: "real \<Rightarrow> vec3"
  v_component :: "real \<Rightarrow> real outcome"
  v_k :: "real \<Rightarrow> real"
  printed :: "real set"

text \<open>
  The statements of the script in their order, from line 35 to line 72. Each statement
  reads the names of its right-hand side in the namespace as the statements before it
  left it, and updates the names of its left-hand side; \<open>s0\<close> is the namespace in which
  the script starts.
\<close>

definition script ::
  "real \<Rightarrow> real \<Rightarrow> real \<Rightarrow> real \<Rightarrow> real \<Rightarrow> real \<Rightarrow> real \<Rightarrow> env \<Rightarrow> env" where
  "script Y ch sh a1 a2 a3 k s0 =
    (let s1 = s0\<lparr>v_Y := \<lambda>x. Y, v_c := \<lambda>x. x, v_ch := \<lambda>x. ch, v_sh := \<lambda>x. sh\<rparr>;
         s2 = s1\<lparr>v_Yrg := \<lambda>x. (v_Y s1 x, v_c s1 x * v_ch s1 x + 0.21902143,
                                 v_c s1 x * v_sh s1 x + 0.54371398)\<rparr>;
         s3 = s2\<lparr>v_r := \<lambda>x. at1 (v_Yrg s2 x)\<rparr>;
         s4 = s3\<lparr>v_g := \<lambda>x. at2 (v_Yrg s3 x)\<rparr>;
         s5 = s4\<lparr>v_rgb := \<lambda>x. (v_r s4 x, v_g s4 x, 1 - v_r s4 x - v_g s4 x)\<rparr>;
         s6 = s5\<lparr>v_rgb_to_lms := ((0.95, 0.38, 0.00),
                                   (0.05, 0.62, 0.03),
                                   (0.00, 0.00, 0.97))\<rparr>;
         s7 = s6\<lparr>v_lms := \<lambda>x. mat_vec (v_rgb_to_lms s6) (v_rgb s6 x)\<rparr>;
         s8 = s7\<lparr>v_coeff := \<lambda>x. sdiv (v_Y s7 x)
                     (0.68990272 * at0 (v_lms s7 x) + 0.34832189 * at1 (v_lms s7 x))\<rparr>;
         s9 = s8\<lparr>v_LMS := \<lambda>x. scale (v_coeff s8 x) (v_lms s8 x)\<rparr>;
         s10 = s9\<lparr>v_a1 := \<lambda>x. a1, v_a2 := \<lambda>x. a2, v_a3 := \<lambda>x. a3\<rparr>;
         s11 = s10\<lparr>v_A := \<lambda>x. (v_a1 s10 x, v_a2 s10 x, v_a3 s10 x)\<rparr>;
         s12 = s11\<lparr>v_component := \<lambda>x. map_outcome (dot (v_A s11 x)) (v_LMS s11 x)\<rparr>;
         s13 = s12\<lparr>v_k := \<lambda>x. k\<rparr>
     in s13\<lparr>printed :=
          solveset_real (\<lambda>x. map_outcome (\<lambda>v. v - v_k s13 x) (v_component s13 x))\<rparr>)"

subsection \<open>Elementary facts\<close>

lemma Yrg_entries:
  "r Y c ch sh = c * ch + 0.21902143" "g Y c ch sh = c * sh + 0.54371398"
  by (simp_all add: r_def g_def Yrg_def)

lemma lms_entries:
  "at0 (lms Y c ch sh) = 0.95 * r Y c ch sh + 0.38 * g Y c ch sh"
  "at1 (lms Y c ch sh) =
     0.05 * r Y c ch sh + 0.62 * g Y c ch sh + 0.03 * (1 - r Y c ch sh - g Y c ch sh)"
  "at2 (lms Y c ch sh) = 0.97 * (1 - r Y c ch sh - g Y c ch sh)"
  by (simp_all add: lms_def rgb_to_lms_def rgb_def)

lemma LMS_cases:
  "LMS Y c ch sh =
     (if denom Y c ch sh = 0 then NonFinite
      else Val (Y / denom Y c ch sh * at0 (lms Y c ch sh),
                Y / denom Y c ch sh * at1 (lms Y c ch sh),
                Y / denom Y c ch sh * at2 (lms Y c ch sh)))"
  by (cases "lms Y c ch sh") (simp add: LMS_def coeff_def sdiv_def)

lemma component_cases:
  "component Y c ch sh a1 a2 a3 =
     (if denom Y c ch sh = 0 then NonFinite
      else Val (a1 * (Y / denom Y c ch sh * at0 (lms Y c ch sh))
              + a2 * (Y / denom Y c ch sh * at1 (lms Y c ch sh))
              + a3 * (Y / denom Y c ch sh * at2 (lms Y c ch sh))))"
  by (simp add: component_def LMS_cases A_def)

text \<open>Both the denominator and the projected cone response are affine in the chroma.\<close>

lemma denom_affine:
  "denom Y c ch sh = (0.6623740218 * ch + 0.4676729487 * sh) * c + 0.4098040824255"
  by (simp add: lms_entries Yrg_entries field_simps)

lemma dot_lms_affine:
  "a1 * at0 (lms Y c ch sh) + a2 * at1 (lms Y c ch sh) + a3 * at2 (lms Y c ch sh) =
     (a1 * (0.95 * ch + 0.38 * sh) + a2 * (0.02 * ch + 0.59 * sh) - a3 * (0.97 * (ch + sh))) * c
     + (a1 * 0.4146816709 + a2 * 0.3551716768 + a3 * 0.2301466523)"
  by (simp add: lms_entries Yrg_entries field_simps)

lemma component_affine_explicit:
  "denom Y c ch sh = (0.6623740218 * ch + 0.4676729487 * sh) * c + 0.4098040824255 \<and>
   component Y c ch sh a1 a2 a3 =
     (if (0.6623740218 * ch + 0.4676729487 * sh) * c + 0.4098040824255 = 0 then NonFinite
      else Val ((Y * (a1 * (0.95 * ch + 0.38 * sh) + a2 * (0.02 * ch + 0.59 * sh)
                      - a3 * (0.97 * (ch + sh))) * c
                 + Y * (a1 * 0.4146816709 + a2 * 0.3551716768 + a3 * 0.2301466523))
                / ((0.6623740218 * ch + 0.4676729487 * sh) * c + 0.4098040824255)))"
proof -
  have num: "a1 * (Y / denom Y c ch sh * at0 (lms Y c ch sh))
            + a2 * (Y / denom Y c ch sh * at1 (lms Y c ch sh))
            + a3 * (Y / denom Y c ch sh * at2 (lms Y c ch sh))
        = Y * (a1 * at0 (lms Y c ch sh) + a2 * at1 (lms Y c ch sh)
               + a3 * at2 (lms Y c ch sh)) / denom Y c ch sh"
    by (simp add: algebra_simps add_divide_distrib)
  have d: "denom Y c ch sh = (0.6623740218 * ch + 0.4676729487 * sh) * c + 0.4098040824255"
    by (rule denom_affine)
  have n: "Y * (a1 * at0 (lms Y c ch sh) + a2 * at1 (lms Y c ch sh)
                + a3 * at2 (lms Y c ch sh))
         = Y * (a1 * (0.95 * ch + 0.38 * sh) + a2 * (0.02 * ch + 0.59 * sh)
                      - a3 * (0.97 * (ch + sh))) * c
                 + Y * (a1 * 0.4146816709 + a2 * 0.3551716768 + a3 * 0.2301466523)"
    by (simp only: dot_lms_affine) (simp add: algebra_simps)
  have "component Y c ch sh a1 a2 a3 =
        (if denom Y c ch sh = 0 then NonFinite
         else Val (Y * (a1 * at0 (lms Y c ch sh) + a2 * at1 (lms Y c ch sh)
                        + a3 * at2 (lms Y c ch sh)) / denom Y c ch sh))"
    by (simp only: component_cases num)
  then have "component Y c ch sh a1 a2 a3 =
     (if (0.6623740218 * ch + 0.4676729487 * sh) * c + 0.4098040824255 = 0 then NonFinite
      else Val ((Y * (a1 * (0.95 * ch + 0.38 * sh) + a2 * (0.02 * ch + 0.59 * sh)
                      - a3 * (0.97 * (ch + sh))) * c
                 + Y * (a1 * 0.4146816709 + a2 * 0.3551716768 + a3 * 0.2301466523))
                / ((0.6623740218 * ch + 0.4676729487 * sh) * c + 0.4098040824255)))"
    by (simp only: d n)
  with d show ?thesis by (rule conjI)
qed

lemma component_affine_quotient:
  "\<exists>n1 n0 d1 d0. 0 < d0 \<and>
     (\<forall>c. denom Y c ch sh = d1 * c + d0 \<and>
          component Y c ch sh a1 a2 a3 =
            (if d1 * c + d0 = 0 then NonFinite else Val ((n1 * c + n0) / (d1 * c + d0))))"
proof -
  have "(0::real) < 0.4098040824255" by simp
  with component_affine_explicit [of Y _ ch sh a1 a2 a3] show ?thesis by blast
qed

text \<open>The denominator is free of the chroma exactly where its chroma coefficient is zero.\<close>

lemma denom_constant_iff:
  "(\<forall>x. denom Y x ch sh = denom Y 0 ch sh) = (0.6623740218 * ch + 0.4676729487 * sh = 0)"
proof
  assume "\<forall>x. denom Y x ch sh = denom Y 0 ch sh"
  then have "denom Y 1 ch sh = denom Y 0 ch sh" by (rule spec)
  then show "0.6623740218 * ch + 0.4676729487 * sh = 0"
    by (simp only: denom_affine) simp
next
  assume "0.6623740218 * ch + 0.4676729487 * sh = 0"
  then show "\<forall>x. denom Y x ch sh = denom Y 0 ch sh"
    by (simp only: denom_affine) simp
qed

text \<open>The normalisation of the script is the operation applied to \<open>lms\<close>.\<close>

lemma LMS_normalizeByLuminance:
  "LMS Y c ch sh = normalizeByLuminance Y (lms Y c ch sh)"
  by (simp only: LMS_def coeff_def normalizeByLuminance_def)

lemma outcome_of_scale:
  assumes "w \<noteq> Raised e"
  shows "scale w v \<noteq> Raised e"
  using assms by (cases w; cases v) simp_all

text \<open>An affine function with two distinct zeros is the zero function.\<close>

lemma affine_two_roots:
  fixes p q :: real
  assumes "p * x1 + q = 0" and "p * x2 + q = 0" and "x1 \<noteq> x2"
  shows "p = 0 \<and> q = 0"
proof -
  from assms(1,2) have "p * x1 = p * x2"
    by linarith
  with assms(3) have "p = 0" by simp
  with assms(1) show ?thesis by simp
qed

subsection \<open>The closure of the normalised triple\<close>

text \<open>
  Claim C4. For every luminance, chroma and hue, the three entries of \<open>rgb\<close> add up to
  exactly one. Nothing restricts the entries to the unit interval: the identity holds at
  every input, whatever the signs and sizes of the entries.
\<close>

theorem rgb_closure:
  "at0 (rgb Y c ch sh) + at1 (rgb Y c ch sh) + at2 (rgb Y c ch sh) = 1"
  by (simp add: rgb_def)

subsection \<open>The neutral axis\<close>

text \<open>
  Claim C6. At chroma zero the forward evaluation yields a value, and that value is the
  same for every hue: for every luminance and row there is one number \<open>v\<close> such that
  \<open>component\<close> at \<open>c = 0\<close> is \<open>Val v\<close> whatever \<open>ch\<close> and \<open>sh\<close> are.
\<close>

theorem component_neutral_axis:
  "\<exists>v. \<forall>ch sh. component Y 0 ch sh a1 a2 a3 = Val v"
proof -
  have "component Y 0 ch sh a1 a2 a3 = component Y 0 0 0 a1 a2 a3" for ch sh
    by (simp add: component_def LMS_def coeff_def lms_def rgb_def r_def g_def Yrg_def)
  moreover have "denom Y 0 0 0 \<noteq> 0"
    by (simp only: denom_affine) simp
  then have "\<exists>v. component Y 0 0 0 a1 a2 a3 = Val v"
    by (simp only: component_cases if_False) blast
  ultimately show ?thesis by metis
qed

subsection \<open>Normalisation by the luminance\<close>

text \<open>
  Claim C3. Wherever the denominator of \<open>coeff\<close> is not zero, \<open>coeff\<close> is the quotient of
  \<open>Y\<close> by it, \<open>LMS\<close> is \<open>coeff\<close> times \<open>lms\<close>, and the luminance of the scaled cone response,
  0.68990272 times its first entry plus 0.34832189 times its second, is exactly \<open>Y\<close>.
\<close>

theorem LMS_luminance:
  assumes "denom Y c ch sh \<noteq> 0"
  shows "coeff Y c ch sh = Val (Y / denom Y c ch sh) \<and>
         (\<exists>Ls Ms Ss. LMS Y c ch sh = Val (Ls, Ms, Ss) \<and>
            Ls = Y / denom Y c ch sh * at0 (lms Y c ch sh) \<and>
            Ms = Y / denom Y c ch sh * at1 (lms Y c ch sh) \<and>
            0.68990272 * Ls + 0.34832189 * Ms = Y)"
proof -
  let ?d = "denom Y c ch sh"
  have "0.68990272 * (Y / ?d * at0 (lms Y c ch sh)) + 0.34832189 * (Y / ?d * at1 (lms Y c ch sh))
        = Y / ?d * ?d"
    by (simp only: distrib_left mult.left_commute [of _ "Y / ?d"])
  also have "\<dots> = Y"
    using assms by simp
  finally have lum: "0.68990272 * (Y / ?d * at0 (lms Y c ch sh))
      + 0.34832189 * (Y / ?d * at1 (lms Y c ch sh)) = Y" .
  have "coeff Y c ch sh = Val (Y / ?d)"
    using assms by (simp add: coeff_def sdiv_def)
  moreover have "LMS Y c ch sh = Val (Y / ?d * at0 (lms Y c ch sh),
      Y / ?d * at1 (lms Y c ch sh), Y / ?d * at2 (lms Y c ch sh))"
    using assms by (simp only: LMS_cases if_False)
  ultimately show ?thesis
    using lum by blast
qed

theorem LMS_luminance_witness:
  "denom (1/2) 0 1 0 \<noteq> 0 \<and>
   (\<exists>Ls Ms Ss. LMS (1/2) 0 1 0 = Val (Ls, Ms, Ss) \<and>
      0.68990272 * Ls + 0.34832189 * Ms = 1/2)"
proof -
  have h: "denom (1/2) 0 1 0 \<noteq> 0"
    by (simp only: denom_affine) simp
  from LMS_luminance [OF h] show ?thesis
    using h by blast
qed

text \<open>
  Claim C2, as stated, fails. At luminance 1 and cone response \<open>(0, 0, 1)\<close> the
  denominator is zero, whatever the two weights are, since both of its products have the
  factor zero. The scaled cone response is then a non-finite value, and no
  \<open>DegenerateNormalization\<close> is signalled.
\<close>

theorem normalization_error_counterexample:
  "0.68990272 * at0 (0, 0, 1) + 0.34832189 * at1 (0, 0, 1) = 0 \<and>
   normalizeByLuminance 1 (0, 0, 1) = NonFinite \<and>
   normalizeByLuminance 1 (0, 0, 1) \<noteq> Raised DegenerateNormalization"
  by (simp add: normalizeByLuminance_def sdiv_def)

text \<open>
  Claim C2, amended. The normalisation signals an error at no input: neither the
  operation on a cone response, nor \<open>coeff\<close>, \<open>LMS\<close> or \<open>component\<close> of the script is ever
  a raised error. Where the first two entries of the cone response are zero, so that the
  denominator is zero, the result is a non-finite value.
\<close>

theorem normalization_never_raises:
  "normalizeByLuminance Y l \<noteq> Raised e \<and>
   coeff Y c ch sh \<noteq> Raised e \<and> LMS Y c ch sh \<noteq> Raised e \<and>
   component Y c ch sh a1 a2 a3 \<noteq> Raised e \<and>
   normalizeByLuminance Y (0, 0, S) = NonFinite"
proof -
  have s: "sdiv x y \<noteq> Raised e" for x y
    by (simp add: sdiv_def)
  have n: "normalizeByLuminance Y l \<noteq> Raised e" for l
    unfolding normalizeByLuminance_def by (rule outcome_of_scale) (rule s)
  have c: "coeff Y c ch sh \<noteq> Raised e"
    unfolding coeff_def by (rule s)
  have L: "LMS Y c ch sh \<noteq> Raised e"
    by (simp only: LMS_normalizeByLuminance n not_False_eq_True)
  have "component Y c ch sh a1 a2 a3 \<noteq> Raised e"
    using L by (cases "LMS Y c ch sh") (simp_all add: component_def)
  moreover have "normalizeByLuminance Y (0, 0, S) = NonFinite"
    by (simp add: normalizeByLuminance_def sdiv_def)
  ultimately show ?thesis
    using n c L by blast
qed

text \<open>
  With the literals read as the decimals they spell, the cone response \<open>(0, 0, 1)\<close> is
  the one of the normalised triple \<open>(2/97, -5/97, 100/97)\<close>.
\<close>

lemma lms_zero_luminance:
  "lms Y 1 (2 / 97 - 0.21902143) (- 5 / 97 - 0.54371398) = (0, 0, 1)"
  by (simp add: lms_def rgb_to_lms_def rgb_def r_def g_def Yrg_def)

subsection \<open>Homogeneity in the luminance\<close>

text \<open>
  Claim C10. The normalised triple \<open>rgb\<close> and the cone response \<open>lms\<close> do not depend on
  the luminance, and neither does the denominator of \<open>coeff\<close>. Wherever that denominator
  is not zero, the channel value at luminance \<open>l * Y\<close> is \<open>l\<close> times the channel value at
  luminance \<open>Y\<close>, for every scalar \<open>l\<close>.
\<close>

theorem component_homogeneous:
  "rgb Y1 c ch sh = rgb Y2 c ch sh \<and> lms Y1 c ch sh = lms Y2 c ch sh \<and>
   (denom Y c ch sh \<noteq> 0 \<longrightarrow>
      denom (l * Y) c ch sh = denom Y c ch sh \<and>
      (\<exists>v. component Y c ch sh a1 a2 a3 = Val v \<and>
           component (l * Y) c ch sh a1 a2 a3 = Val (l * v)))"
proof -
  have rgb: "rgb Y1 c ch sh = rgb Y2 c ch sh" for Y1 Y2
    by (simp add: rgb_def Yrg_entries)
  have lms: "lms Y1 c ch sh = lms Y2 c ch sh" for Y1 Y2
    using rgb [of Y1 Y2] by (simp only: lms_def)
  have "denom (l * Y) c ch sh = denom Y c ch sh \<and>
      (\<exists>v. component Y c ch sh a1 a2 a3 = Val v \<and>
           component (l * Y) c ch sh a1 a2 a3 = Val (l * v))"
    if nz: "denom Y c ch sh \<noteq> 0"
  proof -
    have d: "denom (l * Y) c ch sh = denom Y c ch sh"
      by (simp only: lms [of "l * Y" Y])
    have "component (l * Y) c ch sh a1 a2 a3 =
        Val (a1 * (l * Y / denom Y c ch sh * at0 (lms Y c ch sh))
              + a2 * (l * Y / denom Y c ch sh * at1 (lms Y c ch sh))
              + a3 * (l * Y / denom Y c ch sh * at2 (lms Y c ch sh)))"
      using nz by (simp only: component_cases lms [of "l * Y" Y] if_False)
    also have "a1 * (l * Y / denom Y c ch sh * at0 (lms Y c ch sh))
              + a2 * (l * Y / denom Y c ch sh * at1 (lms Y c ch sh))
              + a3 * (l * Y / denom Y c ch sh * at2 (lms Y c ch sh))
        = l * (a1 * (Y / denom Y c ch sh * at0 (lms Y c ch sh))
              + a2 * (Y / denom Y c ch sh * at1 (lms Y c ch sh))
              + a3 * (Y / denom Y c ch sh * at2 (lms Y c ch sh)))"
      by (simp add: algebra_simps)
    finally have "component (l * Y) c ch sh a1 a2 a3 =
        Val (l * (a1 * (Y / denom Y c ch sh * at0 (lms Y c ch sh))
              + a2 * (Y / denom Y c ch sh * at1 (lms Y c ch sh))
              + a3 * (Y / denom Y c ch sh * at2 (lms Y c ch sh))))" .
    moreover have "component Y c ch sh a1 a2 a3 =
        Val (a1 * (Y / denom Y c ch sh * at0 (lms Y c ch sh))
              + a2 * (Y / denom Y c ch sh * at1 (lms Y c ch sh))
              + a3 * (Y / denom Y c ch sh * at2 (lms Y c ch sh)))"
      using nz by (simp only: component_cases if_False)
    ultimately show ?thesis using d by blast
  qed
  with rgb lms show ?thesis by blast
qed

theorem component_homogeneous_witness:
  "denom (1/2) 0 1 0 \<noteq> 0 \<and>
   (\<exists>v. component (1/2) 0 1 0 1 0 0 = Val v \<and>
        component (3 * (1/2)) 0 1 0 1 0 0 = Val (3 * v))"
proof -
  have h: "denom (1/2) 0 1 0 \<noteq> 0"
    by (simp only: denom_affine) simp
  from component_homogeneous [where Y = "1/2" and c = 0 and ch = 1 and sh = 0 and l = 3
      and ?a1.0 = 1 and ?a2.0 = 0 and ?a3.0 = 0] h
  show ?thesis by blast
qed

subsection \<open>The channel value as a function of the chroma\<close>

text \<open>
  Claim C5, as stated, fails in its last part. Along the hue direction
  \<open>(ch, sh) = (0.4676729487, -0.6623740218)\<close> the normalization denominator is the
  same number at every chroma, here at the chromas 0, 1 and 2: the chroma does not appear
  in it, and the boundary equation is a plain linear one there.
\<close>

theorem denominator_free_of_chroma_counterexample:
  "denom 1 0 0.4676729487 (- 0.6623740218) = 0.4098040824255 \<and>
   denom 1 1 0.4676729487 (- 0.6623740218) = 0.4098040824255 \<and>
   denom 1 2 0.4676729487 (- 0.6623740218) = 0.4098040824255"
  by (simp only: component_affine_explicit) simp

text \<open>
  Claim C5, amended. For every luminance, hue and row, \<open>r\<close> and \<open>g\<close> are affine in the
  chroma, the normalization denominator is the affine polynomial
  \<open>(0.6623740218 * ch + 0.4676729487 * sh) * c + 0.4098040824255\<close>, which is never the
  zero polynomial, and the channel value is the quotient of an affine numerator by it,
  and not a finite value where it vanishes. The chroma appears in the denominator exactly
  where \<open>0.6623740218 * ch + 0.4676729487 * sh\<close> is not zero; elsewhere the channel value
  is affine in the chroma.
\<close>

theorem component_rational_in_chroma:
  "r Y c ch sh = ch * c + 0.21902143 \<and> g Y c ch sh = sh * c + 0.54371398 \<and>
   denom Y c ch sh = (0.6623740218 * ch + 0.4676729487 * sh) * c + 0.4098040824255 \<and>
   component Y c ch sh a1 a2 a3 =
     (if (0.6623740218 * ch + 0.4676729487 * sh) * c + 0.4098040824255 = 0 then NonFinite
      else Val ((Y * (a1 * (0.95 * ch + 0.38 * sh) + a2 * (0.02 * ch + 0.59 * sh)
                      - a3 * (0.97 * (ch + sh))) * c
                 + Y * (a1 * 0.4146816709 + a2 * 0.3551716768 + a3 * 0.2301466523))
                / ((0.6623740218 * ch + 0.4676729487 * sh) * c + 0.4098040824255))) \<and>
   (\<forall>x. denom Y x ch sh = denom Y 0 ch sh) = (0.6623740218 * ch + 0.4676729487 * sh = 0)"
proof -
  have "r Y c ch sh = ch * c + 0.21902143" "g Y c ch sh = sh * c + 0.54371398"
    by (simp_all only: Yrg_entries mult.commute [of c])
  with component_affine_explicit [of Y c ch sh a1 a2 a3] denom_constant_iff [of Y ch sh]
  show ?thesis by (intro conjI) blast+
qed

text \<open>
  The direction of the counterexample is that of the hue
  \<open>arctan (- 6623740218 / 4676729487)\<close>, with the chroma scaled by the length of the
  direction: at the cosine and sine of this hue the denominator is constant as well.
\<close>

lemma denom_at_hue:
  "denom Y c (cos (arctan (- 6623740218 / 4676729487)))
             (sin (arctan (- 6623740218 / 4676729487))) = 0.4098040824255"
proof -
  have "0.6623740218 * cos (arctan (- 6623740218 / 4676729487))
      + 0.4676729487 * sin (arctan (- 6623740218 / 4676729487)) = (0::real)"
    by (simp add: cos_arctan sin_arctan field_simps)
  then show ?thesis
    by (simp only: denom_affine mult_zero_left add_0)
qed

text \<open>
  That some hue frees the denominator of the chroma does not depend on the values of the
  literals: whatever the weights, the matrix and the offsets are, the chroma coefficient
  of the denominator is a linear form in \<open>ch\<close> and \<open>sh\<close>, and it vanishes along a
  direction of length one.
\<close>

lemma denom_as_denom_of:
  "denom Y c ch sh =
     denom_of 0.68990272 0.34832189 rgb_to_lms 0.21902143 0.54371398 c ch sh"
  by (simp add: denom_of_def lms_def rgb_def r_def g_def Yrg_def)

lemma denom_of_constant_direction:
  "\<exists>ch sh. ch\<^sup>2 + sh\<^sup>2 = 1 \<and>
     (\<forall>c. denom_of w1 w2 m r0 g0 c ch sh = denom_of w1 w2 m r0 g0 0 ch sh)"
proof -
  obtain m00 m01 m02 m10 m11 m12 row2 where m: "m = ((m00, m01, m02), (m10, m11, m12), row2)"
    by (metis prod_cases3)
  define p where "p = w1 * (m00 - m02) + w2 * (m10 - m12)"
  define q where "q = w1 * (m01 - m02) + w2 * (m11 - m12)"
  have aff: "denom_of w1 w2 m r0 g0 c ch sh
      = (p * ch + q * sh) * c + denom_of w1 w2 m r0 g0 0 ch sh" for c ch sh
    by (cases row2) (simp add: denom_of_def m p_def q_def algebra_simps)
  show ?thesis
  proof (cases "p = 0 \<and> q = 0")
    case True
    then have "\<forall>c. denom_of w1 w2 m r0 g0 c 1 0 = denom_of w1 w2 m r0 g0 0 1 0"
      using aff [of _ 1 0] by simp
    moreover have "(1::real)\<^sup>2 + 0\<^sup>2 = 1" by simp
    ultimately show ?thesis by blast
  next
    case False
    define n where "n = sqrt (p\<^sup>2 + q\<^sup>2)"
    from False have pos: "0 < p\<^sup>2 + q\<^sup>2"
      by (metis sum_power2_gt_zero_iff)
    have n2: "n\<^sup>2 = p\<^sup>2 + q\<^sup>2"
      by (simp add: n_def)
    have nz: "n \<noteq> 0"
      using False by (simp add: n_def)
    have "(q / n)\<^sup>2 + (- p / n)\<^sup>2 = (p\<^sup>2 + q\<^sup>2) / n\<^sup>2"
      by (simp add: power_divide add_divide_distrib add.commute)
    also have "\<dots> = 1"
      using nz by (simp only: n2 [symmetric]) simp
    finally have unit: "(q / n)\<^sup>2 + (- p / n)\<^sup>2 = 1" .
    have "p * (q / n) + q * (- p / n) = 0"
      by (simp add: field_simps)
    then have "\<forall>c. denom_of w1 w2 m r0 g0 c (q / n) (- p / n)
        = denom_of w1 w2 m r0 g0 0 (q / n) (- p / n)"
      using aff [of _ "q / n" "- p / n"] by simp
    with unit show ?thesis by blast
  qed
qed

text \<open>
  Claim C9. Numerator and denominator of the channel value are affine in the chroma, so
  the boundary equation \<open>component = k\<close>, once the denominator is cleared, is the linear
  equation \<open>(n1 - k * d1) * x + (n0 - k * d0) = 0\<close> on the chromas where the denominator
  is not zero. Hence two roots of the boundary equation are equal, unless the equation
  holds identically, at every chroma where the channel value is defined.
\<close>

theorem boundary_equation_linear:
  "(\<exists>n1 n0 d1 d0. d0 \<noteq> 0 \<and>
      (\<forall>x. component Y x ch sh a1 a2 a3 =
             (if d1 * x + d0 = 0 then NonFinite else Val ((n1 * x + n0) / (d1 * x + d0)))) \<and>
      (\<forall>x. (component Y x ch sh a1 a2 a3 = Val k) =
             (d1 * x + d0 \<noteq> 0 \<and> (n1 - k * d1) * x + (n0 - k * d0) = 0))) \<and>
   (component Y x1 ch sh a1 a2 a3 = Val k \<and> component Y x2 ch sh a1 a2 a3 = Val k \<longrightarrow>
      x1 = x2 \<or> (\<forall>x. denom Y x ch sh \<noteq> 0 \<longrightarrow> component Y x ch sh a1 a2 a3 = Val k))"
proof -
  obtain n1 n0 d1 d0 where pos: "0 < d0" and
    q: "\<And>x. denom Y x ch sh = d1 * x + d0"
       "\<And>x. component Y x ch sh a1 a2 a3 =
             (if d1 * x + d0 = 0 then NonFinite else Val ((n1 * x + n0) / (d1 * x + d0)))"
    using component_affine_quotient [of Y ch sh a1 a2 a3] by blast
  have cleared: "(component Y x ch sh a1 a2 a3 = Val k) =
      (d1 * x + d0 \<noteq> 0 \<and> (n1 - k * d1) * x + (n0 - k * d0) = 0)" for x
  proof (cases "d1 * x + d0 = 0")
    case True
    then show ?thesis by (simp only: q(2)) simp
  next
    case False
    then have "((n1 * x + n0) / (d1 * x + d0) = k) = (n1 * x + n0 = k * (d1 * x + d0))"
      by (simp add: divide_eq_eq)
    also have "\<dots> = ((n1 - k * d1) * x + (n0 - k * d0) = 0)"
      by (auto simp add: algebra_simps)
    finally show ?thesis
      using False by (simp only: q(2)) simp
  qed
  have unique: "x1 = x2 \<or> (\<forall>x. denom Y x ch sh \<noteq> 0 \<longrightarrow> component Y x ch sh a1 a2 a3 = Val k)"
    if r1: "component Y x1 ch sh a1 a2 a3 = Val k" and r2: "component Y x2 ch sh a1 a2 a3 = Val k"
  proof (cases "x1 = x2")
    case True
    then show ?thesis by simp
  next
    case False
    from r1 r2 have "(n1 - k * d1) * x1 + (n0 - k * d0) = 0"
      and "(n1 - k * d1) * x2 + (n0 - k * d0) = 0"
      by (simp_all only: cleared)
    with False have "n1 - k * d1 = 0 \<and> n0 - k * d0 = 0"
      by (rule affine_two_roots [rotated 2])
    then have "component Y x ch sh a1 a2 a3 = Val k" if "denom Y x ch sh \<noteq> 0" for x
      using that by (simp only: cleared q(1)) simp
    then show ?thesis by blast
  qed
  from pos have "d0 \<noteq> 0" by simp
  with q(2) cleared have "\<exists>n1 n0 d1 d0. d0 \<noteq> 0 \<and>
      (\<forall>x. component Y x ch sh a1 a2 a3 =
             (if d1 * x + d0 = 0 then NonFinite else Val ((n1 * x + n0) / (d1 * x + d0)))) \<and>
      (\<forall>x. (component Y x ch sh a1 a2 a3 = Val k) =
             (d1 * x + d0 \<noteq> 0 \<and> (n1 - k * d1) * x + (n0 - k * d0) = 0))"
    by blast
  with unique show ?thesis by blast
qed

theorem boundary_equation_linear_witness:
  "component 0 0 1 0 1 0 0 = Val 0 \<and> component 0 1 1 0 1 0 0 = Val 0 \<and>
   denom 0 5 1 0 \<noteq> 0 \<and> component 0 5 1 0 1 0 0 = Val 0"
proof -
  have r1: "component 0 0 1 0 1 0 0 = Val 0"
    by (simp only: component_cases denom_affine) simp
  have r2: "component 0 1 1 0 1 0 0 = Val 0"
    by (simp only: component_cases denom_affine) simp
  have nz: "denom 0 5 1 0 \<noteq> 0"
    by (simp only: denom_affine) simp
  from boundary_equation_linear [where Y = 0 and ch = 1 and sh = 0 and ?a1.0 = 1
      and ?a2.0 = 0 and ?a3.0 = 0 and k = 0 and ?x1.0 = 0 and ?x2.0 = 1] r1 r2
  have "\<forall>x. denom 0 x 1 0 \<noteq> 0 \<longrightarrow> component 0 x 1 0 1 0 0 = Val 0"
    by simp
  with nz have "component 0 5 1 0 1 0 0 = Val 0" by blast
  with r1 r2 nz show ?thesis by blast
qed

subsection \<open>The solution set\<close>

text \<open>
  Claim C1. For every luminance, hue, row and target value, the set returned by
  \<open>solveForChroma\<close> is exactly the set of the real chromas at which the forward
  evaluation \<open>component\<close> is the target \<open>k\<close>: each returned chroma reproduces \<open>k\<close>, each
  real chroma that reproduces \<open>k\<close> is returned, and, written out, these are the chromas
  with a non-zero denominator at which the row applied to the scaled cone response is
  \<open>k\<close>. Every returned value, read as a complex number, has imaginary part zero.
\<close>

theorem solveForChroma_real_roots:
  "solveForChroma Y ch sh a1 a2 a3 k = {c. component Y c ch sh a1 a2 a3 = Val k} \<and>
   solveForChroma Y ch sh a1 a2 a3 k =
     {c. denom Y c ch sh \<noteq> 0 \<and>
         a1 * (Y / denom Y c ch sh * at0 (lms Y c ch sh))
       + a2 * (Y / denom Y c ch sh * at1 (lms Y c ch sh))
       + a3 * (Y / denom Y c ch sh * at2 (lms Y c ch sh)) = k} \<and>
   (\<forall>z \<in> complex_of_real ` solveForChroma Y ch sh a1 a2 a3 k. Im z = 0)"
proof -
  have m: "(map_outcome (\<lambda>v. v - k) w = Val 0) = (w = Val k)" for w :: "real outcome"
    by (cases w) auto
  have s: "solveForChroma Y ch sh a1 a2 a3 k = {c. component Y c ch sh a1 a2 a3 = Val k}"
    by (simp only: solveForChroma_def solveset_real_def m)
  moreover have "{c. component Y c ch sh a1 a2 a3 = Val k} =
     {c. denom Y c ch sh \<noteq> 0 \<and>
         a1 * (Y / denom Y c ch sh * at0 (lms Y c ch sh))
       + a2 * (Y / denom Y c ch sh * at1 (lms Y c ch sh))
       + a3 * (Y / denom Y c ch sh * at2 (lms Y c ch sh)) = k}"
    by (simp only: component_cases) auto
  moreover have "\<forall>z \<in> complex_of_real ` solveForChroma Y ch sh a1 a2 a3 k. Im z = 0"
    by simp
  ultimately show ?thesis by simp
qed

theorem solveForChroma_real_roots_witness:
  "23726459 / 100000000 \<in> solveForChroma 1 1 0 0 0 1 0 \<and>
   component 1 (23726459 / 100000000) 1 0 0 0 1 = Val 0 \<and>
   Im (complex_of_real (23726459 / 100000000)) = 0"
proof -
  have root: "component 1 (23726459 / 100000000) 1 0 0 0 1 = Val 0"
    by (simp only: component_cases denom_affine)
       (simp add: lms_entries Yrg_entries)
  with solveForChroma_real_roots [of 1 1 0 0 0 1 0]
  have "23726459 / 100000000 \<in> solveForChroma 1 1 0 0 0 1 0"
    by blast
  with root show ?thesis by simp
qed

subsection \<open>Determinism\<close>

text \<open>
  Claim C8. The script depends on no state. Run from any two namespaces with the same
  values of the symbols, it ends in the same namespace, and so does a run that starts in
  the namespace another run has left, whatever the values of that run were. Every name
  it assigns, and the set it prints, is the function of the symbols given by the
  expressions above: \<open>Yrg\<close>, \<open>rgb\<close>, \<open>lms\<close>, \<open>coeff\<close>, \<open>LMS\<close>, \<open>component\<close> and
  \<open>solveForChroma\<close>.
\<close>

theorem script_stateless:
  "script Y ch sh a1 a2 a3 k s1 = script Y ch sh a1 a2 a3 k s2 \<and>
   script Y ch sh a1 a2 a3 k (script Y' ch' sh' b1 b2 b3 k' s1) = script Y ch sh a1 a2 a3 k s2 \<and>
   v_Yrg (script Y ch sh a1 a2 a3 k s1) = (\<lambda>c. Yrg Y c ch sh) \<and>
   v_rgb (script Y ch sh a1 a2 a3 k s1) = (\<lambda>c. rgb Y c ch sh) \<and>
   v_lms (script Y ch sh a1 a2 a3 k s1) = (\<lambda>c. lms Y c ch sh) \<and>
   v_coeff (script Y ch sh a1 a2 a3 k s1) = (\<lambda>c. coeff Y c ch sh) \<and>
   v_LMS (script Y ch sh a1 a2 a3 k s1) = (\<lambda>c. LMS Y c ch sh) \<and>
   v_component (script Y ch sh a1 a2 a3 k s1) = (\<lambda>c. component Y c ch sh a1 a2 a3) \<and>
   printed (script Y ch sh a1 a2 a3 k s1) = solveForChroma Y ch sh a1 a2 a3 k"
proof -
  have indep: "script Y ch sh a1 a2 a3 k s = script Y ch sh a1 a2 a3 k s'" for s s'
    by (cases s; cases s') (simp add: script_def Let_def)
  have stages:
    "v_Yrg (script Y ch sh a1 a2 a3 k s1) = (\<lambda>c. Yrg Y c ch sh)"
    "v_rgb (script Y ch sh a1 a2 a3 k s1) = (\<lambda>c. rgb Y c ch sh)"
    "v_lms (script Y ch sh a1 a2 a3 k s1) = (\<lambda>c. lms Y c ch sh)"
    "v_coeff (script Y ch sh a1 a2 a3 k s1) = (\<lambda>c. coeff Y c ch sh)"
    "v_LMS (script Y ch sh a1 a2 a3 k s1) = (\<lambda>c. LMS Y c ch sh)"
    "v_component (script Y ch sh a1 a2 a3 k s1) = (\<lambda>c. component Y c ch sh a1 a2 a3)"
    "printed (script Y ch sh a1 a2 a3 k s1) = solveForChroma Y ch sh a1 a2 a3 k"
    by (simp_all add: script_def Let_def Yrg_def r_def g_def rgb_def rgb_to_lms_def lms_def
        coeff_def LMS_def A_def component_def solveForChroma_def)
  from indep [of s1 s2] indep [of "script Y' ch' sh' b1 b2 b3 k' s1" s2] stages
  show ?thesis by (intro conjI)
qed

end
